theory Spec2Isabelle
  imports Main
begin

section \<open>The error translator of \<^verbatim>\<open>src/lib/errors/index.ts\<close>\<close>

text \<open>
  The source is one Express error-handling middleware:
  \<^verbatim>\<open>
  export const errorHandler: ErrorRequestHandler = (
      err: Error & { status: number }, req, res, next
  ): void => {
      if (err instanceof ClientError) {
          res.statusMessage = err.message;
          const { NODE_ENV } = env;
          if (NODE_ENV === 'development' || NODE_ENV === 'test') {
              Log.err(`Client Message: ${err.message}`);
              Log.err(`Server Message: ${err.internalError}`);
          }
          res.status(400).send();
      } else {
          // if there is no status attached, then an internal error occured, hence 500
          const status = err.status || 400;
          res.status(status).send();
      }
  };
  \<close>
  It reads the error, the ambient configuration \<^verbatim>\<open>env\<close>, and writes to two
  places: the response object \<^verbatim>\<open>res\<close> and the diagnostic log. Both are
  modelled as explicit state that the handler takes and returns. The handler's last
  call on either path is \<^verbatim>\<open>res.send()\<close>, which belongs to Express and Node: it
  reads the request, rewrites fields of the response, writes the status line, and can
  raise. What it does decides what the client receives, so it is modelled too, after
  Express 4 (\<^verbatim>\<open>lib/response.js\<close>, \<^verbatim>\<open>lib/request.js\<close>) and Node
  (\<^verbatim>\<open>writeHead\<close> and \<^verbatim>\<open>end\<close> of the HTTP server response). The \<^verbatim>\<open>next\<close>
  callback is an argument the body never touches; it stays an argument of the model,
  of arbitrary type.
\<close>

subsection \<open>JavaScript values and truthiness\<close>

text \<open>
  The field \<^verbatim>\<open>err.status\<close> is declared a number, and the code itself provides for
  a status that is not there. The field is a JavaScript value: absent
  (\<open>JUndefined\<close>), \<open>null\<close>, a boolean, a number or \<open>NaN\<close>. Numbers are the
  integers (HTTP status codes are), with \<open>NaN\<close> apart; \<open>-0\<close> is \<open>0\<close>. Strings
  and objects are not represented: the declared type excludes them, and as a status
  code a string would go through JavaScript's conversion of strings to floating-point
  numbers.
\<close>

datatype js_value =
    JUndefined
  | JNull
  | JBool bool
  | JNumber int
  | JNaN

text \<open>JavaScript's ToBoolean: what \<^verbatim>\<open>||\<close> tests.\<close>

fun truthy :: "js_value \<Rightarrow> bool" where
  "truthy JUndefined = False"
| "truthy JNull = False"
| "truthy (JBool b) = b"
| "truthy (JNumber n) = (n \<noteq> 0)"
| "truthy JNaN = False"

text \<open>\<^verbatim>\<open>a || b\<close>: the left operand when it is truthy, the right one otherwise.\<close>

definition js_or :: "js_value \<Rightarrow> js_value \<Rightarrow> js_value" where
  "js_or a b = (if truthy a then a else b)"

text \<open>
  \<^verbatim>\<open>v | 0\<close>, JavaScript's ToInt32: \<open>undefined\<close>, \<open>null\<close>, \<open>false\<close> and
  \<open>NaN\<close> give 0, \<open>true\<close> gives 1, and an integer is reduced modulo \<open>2^32\<close> into the
  signed 32-bit range.
\<close>

fun ToInt32 :: "js_value \<Rightarrow> int" where
  "ToInt32 JUndefined = 0"
| "ToInt32 JNull = 0"
| "ToInt32 (JBool b) = (if b then 1 else 0)"
| "ToInt32 (JNumber n) = (n + 2147483648) mod 4294967296 - 2147483648"
| "ToInt32 JNaN = 0"

subsection \<open>Errors\<close>

text \<open>
  Modelled from the spec: the class \<^verbatim>\<open>ClientError\<close> of \<^verbatim>\<open>./client\<close>, which is not
  among the sources. The spec describes it as "a tagged error carrying a user-facing
  message and an internal diagnostic message, distinguished from generic/internal
  errors by its category". An error value is thus either a \<open>ClientError\<close>, with
  \<^verbatim>\<open>message\<close> and \<^verbatim>\<open>internalError\<close>, or any other \<^verbatim>\<open>Error\<close>, with its
  \<^verbatim>\<open>message\<close>. Either kind may carry a \<^verbatim>\<open>status\<close> field, as the parameter's type
  \<^verbatim>\<open>Error & { status: number }\<close> says. A character of a message is a JavaScript
  character with a code below 256.
\<close>

datatype js_error =
    ClientError (message: string) (internalError: string) (status: js_value)
  | OtherError (message: string) (status: js_value)

text \<open>\<^verbatim>\<open>err instanceof ClientError\<close>.\<close>

fun instanceof_ClientError :: "js_error \<Rightarrow> bool" where
  "instanceof_ClientError (ClientError m i st) = True"
| "instanceof_ClientError (OtherError m st) = False"

subsection \<open>Configuration, request, response and log\<close>

text \<open>
  Modelled from the spec: the module \<^verbatim>\<open>config/env\<close>, which is not among the sources.
  The handler reads \<^verbatim>\<open>NODE_ENV\<close> from it; the test suite reads and deletes
  \<^verbatim>\<open>NODE_ENV\<close> and \<^verbatim>\<open>JWT_SECRET\<close>, so each is a string that may be missing.
\<close>

record env =
  NODE_ENV :: "string option"
  JWT_SECRET :: "string option"

text \<open>
  What \<^verbatim>\<open>res.send\<close> reads of the request: its method, and whether its conditional
  headers (\<^verbatim>\<open>If-None-Match\<close>, \<^verbatim>\<open>If-Modified-Since\<close>) match the validators of the
  response, which is the answer of the \<^verbatim>\<open>fresh\<close> package that Express consults.
\<close>

record request =
  req_method :: string
  conditional_fresh :: bool

text \<open>What \<^verbatim>\<open>res.send()\<close> puts on the wire: the status line and the body.\<close>

record wire_response =
  wire_status :: int
  wire_reason :: string
  wire_body :: string

text \<open>
  The response object: the properties \<^verbatim>\<open>statusCode\<close> and \<^verbatim>\<open>statusMessage\<close>
  (undefined until assigned), the calls of \<^verbatim>\<open>res.send\<close> so far, each recorded with
  the body it was given (\<open>None\<close> for \<^verbatim>\<open>send()\<close> without an argument), and what has
  been written to the client (\<open>None\<close> while the response is open). Headers are not
  represented, and a response is either open or finished: one whose head is written
  and whose body is still streaming is not.
\<close>

record response =
  statusCode :: js_value
  statusMessage :: "string option"
  sent :: "string option list"
  wire :: "wire_response option"

text \<open>The exceptions Node raises out of \<^verbatim>\<open>res.send()\<close>.\<close>

datatype node_error =
    ERR_HTTP_INVALID_STATUS_CODE
  | ERR_INVALID_CHAR
  | ERR_HTTP_HEADERS_SENT

text \<open>
  What the handler can change: the response and the diagnostic log. \<open>thrown\<close> holds
  the exception the handler ended with, if it raised one. On both paths
  \<^verbatim>\<open>send()\<close> is the last call, so an exception out of it ends the handler with all
  its other effects done. What the client receives after that is up to the error
  handling of Express that follows this handler, which is not part of the sources.
\<close>

record handler_state =
  res :: response
  err_log :: "string list"
  thrown :: "node_error option"

text \<open>\<^verbatim>\<open>res.statusMessage = m\<close>\<close>

definition set_statusMessage :: "string \<Rightarrow> handler_state \<Rightarrow> handler_state" where
  "set_statusMessage m s = s\<lparr>res := (res s)\<lparr>statusMessage := Some m\<rparr>\<rparr>"

text \<open>\<^verbatim>\<open>res.status(code)\<close>: Express 4 stores the code as it is given.\<close>

definition res_status :: "js_value \<Rightarrow> handler_state \<Rightarrow> handler_state" where
  "res_status code s = s\<lparr>res := (res s)\<lparr>statusCode := code\<rparr>\<rparr>"

subsection \<open>Sending: Express's \<^verbatim>\<open>res.send()\<close> and Node's \<^verbatim>\<open>writeHead\<close>\<close>

text \<open>
  Node's table \<^verbatim>\<open>http.STATUS_CODES\<close> of reason phrases, and the phrase
  \<^verbatim>\<open>STATUS_CODES[code] || 'unknown'\<close> that \<^verbatim>\<open>writeHead\<close> falls back on.
\<close>

definition STATUS_CODES :: "int \<Rightarrow> string option" where
  "STATUS_CODES = map_of
     [(100, ''Continue''), (101, ''Switching Protocols''), (102, ''Processing''),
      (103, ''Early Hints''),
      (200, ''OK''), (201, ''Created''), (202, ''Accepted''),
      (203, ''Non-Authoritative Information''), (204, ''No Content''),
      (205, ''Reset Content''), (206, ''Partial Content''), (207, ''Multi-Status''),
      (208, ''Already Reported''), (226, ''IM Used''),
      (300, ''Multiple Choices''), (301, ''Moved Permanently''), (302, ''Found''),
      (303, ''See Other''), (304, ''Not Modified''), (305, ''Use Proxy''),
      (307, ''Temporary Redirect''), (308, ''Permanent Redirect''),
      (400, ''Bad Request''), (401, ''Unauthorized''), (402, ''Payment Required''),
      (403, ''Forbidden''), (404, ''Not Found''), (405, ''Method Not Allowed''),
      (406, ''Not Acceptable''), (407, ''Proxy Authentication Required''),
      (408, ''Request Timeout''), (409, ''Conflict''), (410, ''Gone''),
      (411, ''Length Required''), (412, ''Precondition Failed''),
      (413, ''Payload Too Large''), (414, ''URI Too Long''),
      (415, ''Unsupported Media Type''), (416, ''Range Not Satisfiable''),
      (417, ''Expectation Failed''), (418, ''I'm a Teapot''),
      (421, ''Misdirected Request''), (422, ''Unprocessable Entity''), (423, ''Locked''),
      (424, ''Failed Dependency''), (425, ''Too Early''), (426, ''Upgrade Required''),
      (428, ''Precondition Required''), (429, ''Too Many Requests''),
      (431, ''Request Header Fields Too Large''),
      (451, ''Unavailable For Legal Reasons''),
      (500, ''Internal Server Error''), (501, ''Not Implemented''), (502, ''Bad Gateway''),
      (503, ''Service Unavailable''), (504, ''Gateway Timeout''),
      (505, ''HTTP Version Not Supported''), (506, ''Variant Also Negotiates''),
      (507, ''Insufficient Storage''), (508, ''Loop Detected''),
      (509, ''Bandwidth Limit Exceeded''), (510, ''Not Extended''),
      (511, ''Network Authentication Required'')]"

definition reason_phrase :: "int \<Rightarrow> string" where
  "reason_phrase code = (case STATUS_CODES code of Some p \<Rightarrow> p | None \<Rightarrow> ''unknown'')"

text \<open>
  The characters Node accepts in a status message: a tab, the codes 32 to 126, and
  128 to 255 (\<^verbatim>\<open>checkInvalidHeaderChar\<close> refuses \<^verbatim>\<open>/[^\t\x20-\x7e\x80-\xff]/\<close>).
\<close>

definition valid_header_char :: "char \<Rightarrow> bool" where
  "valid_header_char c =
     (let n = (of_char c :: nat) in n = 9 \<or> (32 \<le> n \<and> n \<le> 126) \<or> 128 \<le> n)"

text \<open>
  \<^verbatim>\<open>this.statusMessage || STATUS_CODES[code] || 'unknown'\<close>: the status message of
  the response when it is set and not empty, the reason phrase of the code otherwise.
\<close>

definition status_text :: "string option \<Rightarrow> int \<Rightarrow> string" where
  "status_text msg code =
     (case msg of
        None \<Rightarrow> reason_phrase code
      | Some m \<Rightarrow> if m = [] then reason_phrase code else m)"

text \<open>
  Node's \<^verbatim>\<open>writeHead(this.statusCode)\<close>, as \<^verbatim>\<open>end()\<close> calls it on an open
  response:
  \<^verbatim>\<open>
  statusCode |= 0;
  if (statusCode < 100 || statusCode > 999)
    throw new ERR_HTTP_INVALID_STATUS_CODE(originalStatusCode);
  if (!this.statusMessage)
    this.statusMessage = STATUS_CODES[statusCode] || 'unknown';
  this.statusCode = statusCode;
  if (checkInvalidHeaderChar(this.statusMessage))
    throw new ERR_INVALID_CHAR('statusMessage');
  \<close>
  The result is the exception together with the response as it stands when the
  exception is raised, or the response with its head ready.
\<close>

definition writeHead :: "response \<Rightarrow> (node_error \<times> response) + response" where
  "writeHead r =
     (let code = ToInt32 (statusCode r) in
      if code < 100 \<or> 999 < code then Inl (ERR_HTTP_INVALID_STATUS_CODE, r)
      else
        let r1 = r\<lparr>statusMessage := Some (status_text (statusMessage r) code),
                    statusCode := JNumber code\<rparr>
        in if list_all valid_header_char (status_text (statusMessage r) code)
           then Inr r1
           else Inl (ERR_INVALID_CHAR, r1))"

text \<open>The status message as the status line prints it.\<close>

definition status_line_text :: "response \<Rightarrow> string" where
  "status_line_text r = (case statusMessage r of None \<Rightarrow> [] | Some m \<Rightarrow> m)"

text \<open>
  Node's \<^verbatim>\<open>end()\<close> without a chunk: nothing on a finished response; on an open
  one the head is written and the response finished with an empty body, unless
  \<^verbatim>\<open>writeHead\<close> raises.
\<close>

definition res_end :: "handler_state \<Rightarrow> handler_state" where
  "res_end s =
     (if wire (res s) \<noteq> None then s
      else case writeHead (res s) of
             Inl (e, r) \<Rightarrow> s\<lparr>res := r, thrown := Some e\<rparr>
           | Inr r \<Rightarrow>
               s\<lparr>res := r\<lparr>wire := Some \<lparr>wire_status = ToInt32 (statusCode r),
                                           wire_reason = status_line_text r,
                                           wire_body = []\<rparr>\<rparr>\<rparr>)"

text \<open>
  Express's getter \<^verbatim>\<open>req.fresh\<close>:
  \<^verbatim>\<open>
  if ('GET' !== method && 'HEAD' !== method) return false;
  if ((status >= 200 && status < 300) || 304 === status)
    return fresh(this.headers, { etag: ..., 'last-modified': ... });
  return false;
  \<close>
  where \<^verbatim>\<open>status\<close> is the status code of the response at that moment.
\<close>

definition req_fresh :: "request \<Rightarrow> js_value \<Rightarrow> bool" where
  "req_fresh req code =
     ((req_method req = ''GET'' \<or> req_method req = ''HEAD'')
      \<and> (case code of JNumber n \<Rightarrow> (200 \<le> n \<and> n < 300) \<or> n = 304 | _ \<Rightarrow> False)
      \<and> conditional_fresh req)"

text \<open>
  Express's \<^verbatim>\<open>res.send()\<close>, called without a body:
  \<^verbatim>\<open>
  if (req.fresh) this.statusCode = 304;
  if (204 === this.statusCode || 304 === this.statusCode) {
    this.removeHeader('Content-Type'); ...   // raises once the head is written
    chunk = '';
  }
  if (req.method === 'HEAD') this.end(); else this.end(chunk, encoding);
  \<close>
  The body is empty on every path. The call itself is recorded first.
\<close>

definition res_send :: "request \<Rightarrow> handler_state \<Rightarrow> handler_state" where
  "res_send req s =
     (let s0 = s\<lparr>res := (res s)\<lparr>sent := sent (res s) @ [None]\<rparr>\<rparr>;
          s1 = (if req_fresh req (statusCode (res s0)) then res_status (JNumber 304) s0 else s0)
      in if (statusCode (res s1) = JNumber 204 \<or> statusCode (res s1) = JNumber 304)
            \<and> wire (res s1) \<noteq> None
         then s1\<lparr>thrown := Some ERR_HTTP_HEADERS_SENT\<rparr>
         else res_end s1)"

text \<open>
  Modelled from the spec: \<^verbatim>\<open>Log.err\<close> of \<^verbatim>\<open>../logger/log\<close>, which is not among the
  sources. The spec has the handler "emit both messages to a diagnostic log"; a call
  appends its line to that log.
\<close>

definition Log_err :: "string \<Rightarrow> handler_state \<Rightarrow> handler_state" where
  "Log_err line s = s\<lparr>err_log := err_log s @ [line]\<rparr>"

subsection \<open>The handler\<close>

text \<open>
  \<^verbatim>\<open>res.send\<close> reaches the request through \<^verbatim>\<open>res.req\<close>, which Express sets to
  the request the handler is called with; the model hands it over.
\<close>

definition errorHandler ::
  "env \<Rightarrow> js_error \<Rightarrow> request \<Rightarrow> 'next \<Rightarrow> handler_state \<Rightarrow> handler_state" where
  "errorHandler env err req next s =
     (if instanceof_ClientError err then
        let s1 = set_statusMessage (message err) s;
            s2 = (if NODE_ENV env = Some ''development'' \<or> NODE_ENV env = Some ''test''
                  then Log_err (''Server Message: '' @ internalError err)
                         (Log_err (''Client Message: '' @ message err) s1)
                  else s1)
        in res_send req (res_status (JNumber 400) s2)
      else
        let status = js_or (status err) (JNumber 400)
        in res_send req (res_status status s))"

text \<open>
  A response as Express hands it to the first handler: status 200, nothing sent. A
  request as the test suite posts it.
\<close>

definition fresh_response :: response where
  "fresh_response =
     \<lparr>statusCode = JNumber 200, statusMessage = None, sent = [], wire = None\<rparr>"

definition fresh_state :: handler_state where
  "fresh_state = \<lparr>res = fresh_response, err_log = [], thrown = None\<rparr>"

text \<open>A status message that \<^verbatim>\<open>writeHead\<close> does not refuse: none, or valid characters.\<close>

definition acceptable :: "string option \<Rightarrow> bool" where
  "acceptable msg = (case msg of None \<Rightarrow> True | Some m \<Rightarrow> list_all valid_header_char m)"

definition post_request :: request where
  "post_request = \<lparr>req_method = ''POST'', conditional_fresh = False\<rparr>"

section \<open>The auth handler, from the specification\<close>

text \<open>
  Modelled from the spec: the login and registration handlers behind
  \<^verbatim>\<open>POST /api/auth/login\<close> and \<^verbatim>\<open>POST /api/auth/register\<close>, the user store
  (\<^verbatim>\<open>db/users\<close>, \<^verbatim>\<open>lib/accounts\<close>) and the token signing service (\<^verbatim>\<open>lib/jwt/jwt\<close>).
  None of them is among the sources; only their test suite is. The definitions below
  follow sections 3, 4.1, 6 and 7 of the specification.
\<close>

text \<open>
  Modelled from the spec: the error taxonomy of section 7 and the status each kind is
  given in section 4.1: "ValidationError (maps to 400)", "AuthenticationError (401)",
  "ConflictError (400 per observed mapping)", "ServerConfigurationError (500)".
\<close>

datatype auth_error =
    ValidationError
  | AuthenticationError
  | ConflictError
  | ServerConfigurationError

fun status_of :: "auth_error \<Rightarrow> nat" where
  "status_of ValidationError = 400"
| "status_of AuthenticationError = 401"
| "status_of ConflictError = 400"
| "status_of ServerConfigurationError = 500"

text \<open>
  Modelled from the spec: the User of section 3, "username (unique), email (unique),
  password (hashed, not stored/compared in plaintext), roles (set of role tags),
  identifier (opaque unique id)". The store is the list of its users.
\<close>

record user =
  username :: string
  email :: string
  password_hash :: string
  userRoles :: "string list"
  user_id :: nat

text \<open>
  Modelled from the spec: the Session Token of section 3, a "signed credential
  containing user identifier and expiry".
\<close>

record session_token =
  subject :: nat
  expiry :: nat
  signature :: string

text \<open>
  Modelled from the spec: the external collaborators of section 6 that the handlers
  call: the password hash, the keyed signature of the signing service, the clock and
  the lifetime of a session token. They are parameters of the model.
\<close>

record collaborators =
  hash :: "string \<Rightarrow> string"
  mac :: "string \<Rightarrow> nat \<times> nat \<Rightarrow> string"
  now :: nat
  session_ttl :: nat

text \<open>
  Modelled from the spec: signing. "Signing-key misconfiguration (missing secret) at
  sign time" fails with ServerConfigurationError; otherwise the token carries the
  user's identifier, its expiry and the signature under the secret.
\<close>

definition jwt_sign ::
  "collaborators \<Rightarrow> string option \<Rightarrow> nat \<Rightarrow> auth_error + session_token" where
  "jwt_sign c secret uid =
     (case secret of
        None \<Rightarrow> Inl ServerConfigurationError
      | Some k \<Rightarrow>
          Inr \<lparr>subject = uid, expiry = now c + session_ttl c,
               signature = mac c k (uid, now c + session_ttl c)\<rparr>)"

text \<open>
  The body of a login request, as the test suite posts it: \<^verbatim>\<open>username\<close> and
  \<^verbatim>\<open>password\<close>, either of which may be left out.
\<close>

record login_body =
  login_username :: "string option"
  login_password :: "string option"

text \<open>
  Modelled from the spec: a field is missing when it is absent or empty ("For all login
  attempts with empty credentials, response status = 400").
\<close>

definition missing :: "string option \<Rightarrow> bool" where
  "missing f = (f = None \<or> f = Some [])"

text \<open>
  Modelled from the spec: Login (section 4.1). "Missing either" field fails with
  ValidationError; "unknown username or wrong password" fails with
  AuthenticationError; "valid credentials" reach the signing of a session token.
\<close>

definition login ::
  "collaborators \<Rightarrow> env \<Rightarrow> user list \<Rightarrow> login_body \<Rightarrow> auth_error + session_token" where
  "login c env store body =
     (case (login_username body, login_password body) of
        (Some n, Some p) \<Rightarrow>
          if n = [] \<or> p = [] then Inl ValidationError
          else (case find (\<lambda>u. username u = n) store of
                  None \<Rightarrow> Inl AuthenticationError
                | Some u \<Rightarrow>
                    if hash c p = password_hash u
                    then jwt_sign c (JWT_SECRET env) (user_id u)
                    else Inl AuthenticationError)
      | _ \<Rightarrow> Inl ValidationError)"

text \<open>
  Modelled from the spec: the response of the login endpoint (section 6), "200 + token"
  on success and the error's status otherwise.
\<close>

record login_response =
  http_status :: nat
  jwt :: "session_token option"

definition login_endpoint ::
  "collaborators \<Rightarrow> env \<Rightarrow> user list \<Rightarrow> login_body \<Rightarrow> login_response" where
  "login_endpoint c env store body =
     (case login c env store body of
        Inl e \<Rightarrow> \<lparr>http_status = status_of e, jwt = None\<rparr>
      | Inr t \<Rightarrow> \<lparr>http_status = 200, jwt = Some t\<rparr>)"

text \<open>The form of a registration request, as the test suite posts it.\<close>

record register_form =
  form_username :: string
  form_email :: string
  form_password :: string
  form_confirmPassword :: string

text \<open>
  Modelled from the spec: the "opaque unique id" of a new user, an identifier no user
  of the store has.
\<close>

definition fresh_id :: "user list \<Rightarrow> nat" where
  "fresh_id store = Suc (fold max (map user_id store) 0)"

text \<open>
  Modelled from the spec: Register (section 4.1). "Password/confirmation mismatch"
  fails with ValidationError, "duplicate username or email" with ConflictError, and
  success "creates User". A failed registration returns the store it was given. The
  spec names no roles for a new user; it gets none.
\<close>

definition register ::
  "collaborators \<Rightarrow> user list \<Rightarrow> register_form \<Rightarrow> (auth_error + user) \<times> user list" where
  "register c store form =
     (if form_password form \<noteq> form_confirmPassword form then (Inl ValidationError, store)
      else if \<exists>u \<in> set store. username u = form_username form \<or> email u = form_email form
        then (Inl ConflictError, store)
      else
        let u = \<lparr>username = form_username form, email = form_email form,
                 password_hash = hash c (form_password form), userRoles = [],
                 user_id = fresh_id store\<rparr>
        in (Inr u, store @ [u]))"

text \<open>
  Modelled from the spec: the status of the registration endpoint (section 6), 200 on
  success and the error's status otherwise.
\<close>

definition register_status :: "auth_error + user \<Rightarrow> nat" where
  "register_status r = (case r of Inl e \<Rightarrow> status_of e | Inr u \<Rightarrow> 200)"

text \<open>
  The test suite's fixtures: the user registered before the tests run (password
  \<^verbatim>\<open>'1'\<close>), with a toy hash and a toy keyed signature standing for the external
  services.
\<close>

definition test_collaborators :: collaborators where
  "test_collaborators =
     \<lparr>hash = (\<lambda>p. ''#'' @ p), mac = (\<lambda>k payload. ''sig:'' @ k), now = 0,
      session_ttl = 120\<rparr>"

definition mockUser :: user where
  "mockUser =
     \<lparr>username = ''__test__'', email = ''__test__@__test__.com'', password_hash = ''#1'',
      userRoles = [''user''], user_id = 1\<rparr>"

section \<open>Properties of the handler\<close>

subsection \<open>Sending\<close>

lemma ToInt32_status: "100 \<le> n \<Longrightarrow> n \<le> 999 \<Longrightarrow> ToInt32 (JNumber n) = n"
  by simp

lemma STATUS_CODES_valid: "STATUS_CODES code = Some p \<Longrightarrow> list_all valid_header_char p"
proof -
  assume "STATUS_CODES code = Some p"
  then have "(code, p) \<in> set
     [(100, ''Continue''), (101, ''Switching Protocols''), (102, ''Processing''),
      (103, ''Early Hints''),
      (200, ''OK''), (201, ''Created''), (202, ''Accepted''),
      (203, ''Non-Authoritative Information''), (204, ''No Content''),
      (205, ''Reset Content''), (206, ''Partial Content''), (207, ''Multi-Status''),
      (208, ''Already Reported''), (226, ''IM Used''),
      (300, ''Multiple Choices''), (301, ''Moved Permanently''), (302, ''Found''),
      (303, ''See Other''), (304, ''Not Modified''), (305, ''Use Proxy''),
      (307, ''Temporary Redirect''), (308, ''Permanent Redirect''),
      (400, ''Bad Request''), (401, ''Unauthorized''), (402, ''Payment Required''),
      (403, ''Forbidden''), (404, ''Not Found''), (405, ''Method Not Allowed''),
      (406, ''Not Acceptable''), (407, ''Proxy Authentication Required''),
      (408, ''Request Timeout''), (409, ''Conflict''), (410, ''Gone''),
      (411, ''Length Required''), (412, ''Precondition Failed''),
      (413, ''Payload Too Large''), (414, ''URI Too Long''),
      (415, ''Unsupported Media Type''), (416, ''Range Not Satisfiable''),
      (417, ''Expectation Failed''), (418, ''I'm a Teapot''),
      (421, ''Misdirected Request''), (422, ''Unprocessable Entity''), (423, ''Locked''),
      (424, ''Failed Dependency''), (425, ''Too Early''), (426, ''Upgrade Required''),
      (428, ''Precondition Required''), (429, ''Too Many Requests''),
      (431, ''Request Header Fields Too Large''),
      (451, ''Unavailable For Legal Reasons''),
      (500, ''Internal Server Error''), (501, ''Not Implemented''), (502, ''Bad Gateway''),
      (503, ''Service Unavailable''), (504, ''Gateway Timeout''),
      (505, ''HTTP Version Not Supported''), (506, ''Variant Also Negotiates''),
      (507, ''Insufficient Storage''), (508, ''Loop Detected''),
      (509, ''Bandwidth Limit Exceeded''), (510, ''Not Extended''),
      (511, ''Network Authentication Required'')]"
    unfolding STATUS_CODES_def by (rule map_of_SomeD)
  then show ?thesis
    by (auto simp: valid_header_char_def)
qed

lemma reason_phrase_valid: "list_all valid_header_char (reason_phrase code)"
  by (cases "STATUS_CODES code")
     (simp_all add: reason_phrase_def STATUS_CODES_valid valid_header_char_def)

lemma reason_phrase_400: "reason_phrase 400 = ''Bad Request''"
  by (simp add: reason_phrase_def STATUS_CODES_def)

lemma status_text_valid: "acceptable msg \<Longrightarrow> list_all valid_header_char (status_text msg code)"
  by (cases msg) (simp_all add: acceptable_def status_text_def reason_phrase_valid)

lemma sent_res_send: "sent (res (res_send req s)) = sent (res s) @ [None]"
  by (simp add: res_send_def Let_def res_status_def res_end_def writeHead_def
      split: sum.splits prod.splits)

lemma err_log_res_send: "err_log (res_send req s) = err_log s"
  by (simp add: res_send_def Let_def res_status_def res_end_def writeHead_def
      split: sum.splits prod.splits)

lemma res_send_400:
  assumes "statusCode (res s) = JNumber 400"
  shows "res_send req s =
     (if wire (res s) \<noteq> None then s\<lparr>res := (res s)\<lparr>sent := sent (res s) @ [None]\<rparr>\<rparr>
      else if list_all valid_header_char (status_text (statusMessage (res s)) 400)
      then s\<lparr>res := (res s)
             \<lparr>statusMessage := Some (status_text (statusMessage (res s)) 400),
              sent := sent (res s) @ [None],
              wire := Some \<lparr>wire_status = 400,
                            wire_reason = status_text (statusMessage (res s)) 400,
                            wire_body = []\<rparr>\<rparr>\<rparr>
      else s\<lparr>res := (res s)
             \<lparr>statusMessage := Some (status_text (statusMessage (res s)) 400),
              sent := sent (res s) @ [None]\<rparr>,
            thrown := Some ERR_INVALID_CHAR\<rparr>)"
  using assms
  by (simp add: res_send_def Let_def res_status_def res_end_def writeHead_def req_fresh_def
      status_line_text_def)

lemma res_send_open:
  assumes "wire (res s) = None" and "statusCode (res s) = JNumber n"
    and "100 \<le> n" and "n \<le> 999"
    and "req_fresh req (JNumber n) \<longrightarrow> n = 304"
    and "list_all valid_header_char (status_text (statusMessage (res s)) n)"
  shows "res_send req s =
     s\<lparr>res := (res s)
         \<lparr>statusMessage := Some (status_text (statusMessage (res s)) n),
          sent := sent (res s) @ [None],
          wire := Some \<lparr>wire_status = n,
                        wire_reason = status_text (statusMessage (res s)) n,
                        wire_body = []\<rparr>\<rparr>\<rparr>"
proof -
  have code: "ToInt32 (JNumber n) = n"
    using assms(3,4) by (rule ToInt32_status)
  have keep: "(res s)\<lparr>statusCode := JNumber n\<rparr> = res s"
    using assms(2) by simp
  show ?thesis
  proof (cases "req_fresh req (JNumber n)")
    case True
    with assms(5) have "n = 304" by simp
    with True assms(1,2,6) keep show ?thesis
      by (simp add: res_send_def Let_def res_status_def res_end_def writeHead_def
          status_line_text_def)
  next
    case False
    with assms(1,2,3,4,6) code keep show ?thesis
      by (simp add: res_send_def Let_def res_status_def res_end_def writeHead_def
          status_line_text_def del: ToInt32.simps)
  qed
qed

lemma res_send_same_response:
  assumes "res s = res s'"
    and "req_fresh req (statusCode (res s)) = req_fresh req' (statusCode (res s))"
  shows "res (res_send req s) = res (res_send req' s')"
  using assms
  by (simp add: res_send_def Let_def res_status_def res_end_def
      split: sum.splits prod.splits)

lemma thrown_res_send_same:
  assumes "res s = res s'" and "thrown s = thrown s'"
    and "req_fresh req (statusCode (res s)) = req_fresh req' (statusCode (res s))"
  shows "thrown (res_send req s) = thrown (res_send req' s')"
  using assms
  by (auto simp: res_send_def Let_def res_status_def res_end_def
      split: sum.splits prod.splits)

subsection \<open>The two branches, computed\<close>

lemma errorHandler_client:
  "errorHandler env (ClientError m i st) req next s =
     res_send req (res_status (JNumber 400)
       (if NODE_ENV env = Some ''development'' \<or> NODE_ENV env = Some ''test''
        then Log_err (''Server Message: '' @ i)
               (Log_err (''Client Message: '' @ m) (set_statusMessage m s))
        else set_statusMessage m s))"
  by (simp add: errorHandler_def Let_def)

lemma errorHandler_other:
  "errorHandler env (OtherError m st) req next s =
     res_send req (res_status (js_or st (JNumber 400)) s)"
  by (simp add: errorHandler_def Let_def)


lemma errorHandler_client_log:
  "err_log (errorHandler env (ClientError m i st) req next s) =
     err_log s @
       (if NODE_ENV env = Some ''development'' \<or> NODE_ENV env = Some ''test''
        then [''Client Message: '' @ m, ''Server Message: '' @ i] else [])"
  by (simp add: errorHandler_client err_log_res_send res_status_def set_statusMessage_def
      Log_err_def)

subsection \<open>Client errors\<close>

text \<open>
  C1, as the code has it. For every error that is an instance of ClientError and whose
  client-facing message is not empty and holds only characters Node accepts in a
  status line, handled on a response that is still open: the handler responds with
  status 400, the status message of the response and of the status line is the
  error's client-facing message, and the body is empty. Nothing of the response comes
  from \<^verbatim>\<open>internalError\<close>: the same error with any other internal message gives the
  same response (this part holds for every ClientError).
\<close>

theorem errorHandler_ClientError_400:
  assumes "instanceof_ClientError err"
    and "message err \<noteq> []" and "list_all valid_header_char (message err)"
    and "wire (res s) = None"
  shows "wire (res (errorHandler env err req next s)) =
           Some \<lparr>wire_status = 400, wire_reason = message err, wire_body = []\<rparr>
       \<and> statusCode (res (errorHandler env err req next s)) = JNumber 400
       \<and> statusMessage (res (errorHandler env err req next s)) = Some (message err)
       \<and> sent (res (errorHandler env err req next s)) = sent (res s) @ [None]
       \<and> thrown (errorHandler env err req next s) = thrown s
       \<and> res (errorHandler env err req next s) =
           res (errorHandler env (ClientError (message err) other (status err)) req next s)"
proof (cases err)
  case (ClientError m i st)
  with assms(2,3,4) show ?thesis
    by (simp add: errorHandler_client res_send_400 res_status_def set_statusMessage_def
        Log_err_def status_text_def)
next
  case (OtherError m st)
  with assms(1) show ?thesis by simp
qed

theorem errorHandler_ClientError_400_witness:
  "instanceof_ClientError (ClientError ''Invalid form'' ''E11000 duplicate key'' JUndefined)
   \<and> wire (res (errorHandler \<lparr>NODE_ENV = Some ''production'', JWT_SECRET = None\<rparr>
        (ClientError ''Invalid form'' ''E11000 duplicate key'' JUndefined)
        post_request () fresh_state)) =
      Some \<lparr>wire_status = 400, wire_reason = ''Invalid form'', wire_body = []\<rparr>
   \<and> statusMessage (res (errorHandler \<lparr>NODE_ENV = Some ''production'', JWT_SECRET = None\<rparr>
        (ClientError ''Invalid form'' ''E11000 duplicate key'' JUndefined)
        post_request () fresh_state)) =
      Some ''Invalid form''
   \<and> sent (res (errorHandler \<lparr>NODE_ENV = Some ''production'', JWT_SECRET = None\<rparr>
        (ClientError ''Invalid form'' ''E11000 duplicate key'' JUndefined)
        post_request () fresh_state)) =
      [None]
   \<and> thrown (errorHandler \<lparr>NODE_ENV = Some ''production'', JWT_SECRET = None\<rparr>
        (ClientError ''Invalid form'' ''E11000 duplicate key'' JUndefined)
        post_request () fresh_state) = None"
proof -
  have h1: "instanceof_ClientError (ClientError ''Invalid form'' ''E11000 duplicate key'' JUndefined)"
    by simp
  have h2: "message (ClientError ''Invalid form'' ''E11000 duplicate key'' JUndefined) \<noteq> []"
    by simp
  have h3: "list_all valid_header_char
      (message (ClientError ''Invalid form'' ''E11000 duplicate key'' JUndefined))"
    by (simp add: valid_header_char_def)
  have h4: "wire (res fresh_state) = None"
    by (simp add: fresh_state_def fresh_response_def)
  show ?thesis
    using h1 errorHandler_ClientError_400 [OF h1 h2 h3 h4,
        of "\<lparr>NODE_ENV = Some ''production'', JWT_SECRET = None\<rparr>" post_request "()" "[]"]
    by (auto simp: fresh_state_def fresh_response_def)
qed

text \<open>
  C1 as it is written fails at a ClientError with an empty message: Node replaces an
  empty status message by the reason phrase, so the status message of the response is
  \<^verbatim>\<open>Bad Request\<close>, not the error's message. It also fails at a message with a line
  feed: \<^verbatim>\<open>send()\<close> raises, and the handler has written no response at all.
\<close>

theorem errorHandler_ClientError_message_counterexample:
  "instanceof_ClientError (ClientError [] ''E11000 duplicate key'' JUndefined)
   \<and> message (ClientError [] ''E11000 duplicate key'' JUndefined) = []
   \<and> statusMessage (res (errorHandler \<lparr>NODE_ENV = Some ''production'', JWT_SECRET = None\<rparr>
        (ClientError [] ''E11000 duplicate key'' JUndefined) post_request () fresh_state)) =
      Some ''Bad Request''
   \<and> wire (res (errorHandler \<lparr>NODE_ENV = Some ''production'', JWT_SECRET = None\<rparr>
        (ClientError [] ''E11000 duplicate key'' JUndefined) post_request () fresh_state)) =
      Some \<lparr>wire_status = 400, wire_reason = ''Bad Request'', wire_body = []\<rparr>
   \<and> instanceof_ClientError
        (ClientError (''Invalid'' @ [CHR 0x0A] @ ''form'') ''E11000 duplicate key'' JUndefined)
   \<and> thrown (errorHandler \<lparr>NODE_ENV = Some ''production'', JWT_SECRET = None\<rparr>
        (ClientError (''Invalid'' @ [CHR 0x0A] @ ''form'') ''E11000 duplicate key'' JUndefined)
        post_request () fresh_state) = Some ERR_INVALID_CHAR
   \<and> wire (res (errorHandler \<lparr>NODE_ENV = Some ''production'', JWT_SECRET = None\<rparr>
        (ClientError (''Invalid'' @ [CHR 0x0A] @ ''form'') ''E11000 duplicate key'' JUndefined)
        post_request () fresh_state)) = None"
  by (simp add: errorHandler_client res_send_400 res_status_def set_statusMessage_def
      status_text_def reason_phrase_400 valid_header_char_def fresh_state_def
      fresh_response_def)

text \<open>
  C7. When the handler processes a ClientError, it appends the line with the
  client-facing message and the line with the internal message to the diagnostic log if
  \<^verbatim>\<open>NODE_ENV\<close> is \<^verbatim>\<open>'development'\<close> or \<^verbatim>\<open>'test'\<close>, and leaves the log as it was
  for every other value, a missing \<^verbatim>\<open>NODE_ENV\<close> included. So the log changes exactly
  in those two environments.
\<close>

theorem errorHandler_ClientError_log:
  assumes "instanceof_ClientError err"
  shows "err_log (errorHandler env err req next s) =
           err_log s @
             (if NODE_ENV env = Some ''development'' \<or> NODE_ENV env = Some ''test''
              then [''Client Message: '' @ message err, ''Server Message: '' @ internalError err]
              else [])
       \<and> (err_log (errorHandler env err req next s) \<noteq> err_log s) =
           (NODE_ENV env = Some ''development'' \<or> NODE_ENV env = Some ''test'')"
proof (cases err)
  case (ClientError m i st)
  then show ?thesis by (simp add: errorHandler_client_log)
next
  case (OtherError m st)
  with assms show ?thesis by simp
qed

theorem errorHandler_ClientError_log_witness:
  "instanceof_ClientError (ClientError ''Invalid form'' ''E11000 duplicate key'' JUndefined)
   \<and> err_log (errorHandler \<lparr>NODE_ENV = Some ''test'', JWT_SECRET = None\<rparr>
        (ClientError ''Invalid form'' ''E11000 duplicate key'' JUndefined)
        post_request () fresh_state) =
      [''Client Message: Invalid form'', ''Server Message: E11000 duplicate key'']
   \<and> err_log (errorHandler \<lparr>NODE_ENV = Some ''development'', JWT_SECRET = None\<rparr>
        (ClientError ''Invalid form'' ''E11000 duplicate key'' JUndefined)
        post_request () fresh_state) =
      [''Client Message: Invalid form'', ''Server Message: E11000 duplicate key'']
   \<and> err_log (errorHandler \<lparr>NODE_ENV = Some ''production'', JWT_SECRET = None\<rparr>
        (ClientError ''Invalid form'' ''E11000 duplicate key'' JUndefined)
        post_request () fresh_state) = []
   \<and> err_log (errorHandler \<lparr>NODE_ENV = None, JWT_SECRET = None\<rparr>
        (ClientError ''Invalid form'' ''E11000 duplicate key'' JUndefined)
        post_request () fresh_state) = []"
proof -
  have h: "instanceof_ClientError (ClientError ''Invalid form'' ''E11000 duplicate key'' JUndefined)"
    by simp
  show ?thesis
    using h
      errorHandler_ClientError_log [OF h,
        of "\<lparr>NODE_ENV = Some ''test'', JWT_SECRET = None\<rparr>" post_request "()" fresh_state]
      errorHandler_ClientError_log [OF h,
        of "\<lparr>NODE_ENV = Some ''development'', JWT_SECRET = None\<rparr>" post_request "()"
          fresh_state]
      errorHandler_ClientError_log [OF h,
        of "\<lparr>NODE_ENV = Some ''production'', JWT_SECRET = None\<rparr>" post_request "()"
          fresh_state]
      errorHandler_ClientError_log [OF h,
        of "\<lparr>NODE_ENV = None, JWT_SECRET = None\<rparr>" post_request "()" fresh_state]
    by (simp add: fresh_state_def)
qed



subsection \<open>Other errors\<close>

text \<open>
  C2, as the code has it. For every error that is not a ClientError, handled on a
  response that is still open and whose status message, if one was set, Node accepts:
  the handler responds with the numeric status attached to the error when it is an
  integer from 100 to 999, and with 400 when no status is attached; in both cases the
  body is empty. One exception is Express's own: for a GET or HEAD request that it
  finds fresh, \<^verbatim>\<open>send()\<close> turns a 2xx status into 304. (The source's comment above
  the default reads "hence 500"; the constant it applies is 400.)
\<close>

theorem errorHandler_other_status:
  assumes "\<not> instanceof_ClientError err"
    and "wire (res s) = None" and "acceptable (statusMessage (res s))"
  shows "(status err = JNumber n \<longrightarrow> 100 \<le> n \<longrightarrow> n \<le> 999 \<longrightarrow>
            (req_fresh req (JNumber n) \<longrightarrow> n = 304) \<longrightarrow>
            wire (res (errorHandler env err req next s)) =
              Some \<lparr>wire_status = n, wire_reason = status_text (statusMessage (res s)) n,
                    wire_body = []\<rparr>
            \<and> statusCode (res (errorHandler env err req next s)) = JNumber n
            \<and> thrown (errorHandler env err req next s) = thrown s)
       \<and> (status err = JUndefined \<longrightarrow>
            wire (res (errorHandler env err req next s)) =
              Some \<lparr>wire_status = 400, wire_reason = status_text (statusMessage (res s)) 400,
                    wire_body = []\<rparr>
            \<and> statusCode (res (errorHandler env err req next s)) = JNumber 400
            \<and> thrown (errorHandler env err req next s) = thrown s)
       \<and> sent (res (errorHandler env err req next s)) = sent (res s) @ [None]"
proof (cases err)
  case (ClientError m i st)
  with assms(1) show ?thesis by simp
next
  case (OtherError m st)
  have text_valid: "list_all valid_header_char (status_text (statusMessage (res s)) k)" for k
    using assms(3) by (rule status_text_valid)
  have attached: "errorHandler env err req next s =
      s\<lparr>res := (res s)
          \<lparr>statusCode := JNumber n,
           statusMessage := Some (status_text (statusMessage (res s)) n),
           sent := sent (res s) @ [None],
           wire := Some \<lparr>wire_status = n,
                         wire_reason = status_text (statusMessage (res s)) n,
                         wire_body = []\<rparr>\<rparr>\<rparr>"
    if "st = JNumber n" "100 \<le> n" "n \<le> 999" "req_fresh req (JNumber n) \<longrightarrow> n = 304"
  proof -
    have "js_or st (JNumber 400) = JNumber n"
      using that(1,2) by (simp add: js_or_def)
    then show ?thesis
      using OtherError that assms(2) text_valid
      by (simp add: errorHandler_other res_send_open [where n = n] res_status_def)
  qed
  have absent: "errorHandler env err req next s =
      s\<lparr>res := (res s)
          \<lparr>statusCode := JNumber 400,
           statusMessage := Some (status_text (statusMessage (res s)) 400),
           sent := sent (res s) @ [None],
           wire := Some \<lparr>wire_status = 400,
                         wire_reason = status_text (statusMessage (res s)) 400,
                         wire_body = []\<rparr>\<rparr>\<rparr>"
    if "st = JUndefined"
    using OtherError that assms(2) text_valid
    by (simp add: errorHandler_other js_or_def res_send_400 res_status_def)
  have calls: "sent (res (errorHandler env err req next s)) = sent (res s) @ [None]"
    using OtherError by (simp add: errorHandler_other sent_res_send res_status_def)
  show ?thesis
    using OtherError attached absent calls by simp
qed

theorem errorHandler_other_status_witness:
  "\<not> instanceof_ClientError (OtherError ''jwt secret missing'' (JNumber 500))
   \<and> wire (res (errorHandler \<lparr>NODE_ENV = None, JWT_SECRET = None\<rparr>
        (OtherError ''jwt secret missing'' (JNumber 500)) post_request () fresh_state)) =
      Some \<lparr>wire_status = 500, wire_reason = ''Internal Server Error'', wire_body = []\<rparr>
   \<and> sent (res (errorHandler \<lparr>NODE_ENV = None, JWT_SECRET = None\<rparr>
        (OtherError ''jwt secret missing'' (JNumber 500)) post_request () fresh_state)) = [None]
   \<and> \<not> instanceof_ClientError (OtherError ''boom'' JUndefined)
   \<and> wire (res (errorHandler \<lparr>NODE_ENV = None, JWT_SECRET = None\<rparr>
        (OtherError ''boom'' JUndefined) post_request () fresh_state)) =
      Some \<lparr>wire_status = 400, wire_reason = ''Bad Request'', wire_body = []\<rparr>
   \<and> sent (res (errorHandler \<lparr>NODE_ENV = None, JWT_SECRET = None\<rparr>
        (OtherError ''boom'' JUndefined) post_request () fresh_state)) = [None]"
proof -
  have h1: "\<not> instanceof_ClientError (OtherError ''jwt secret missing'' (JNumber 500))"
    and h2: "\<not> instanceof_ClientError (OtherError ''boom'' JUndefined)"
    by simp_all
  have open_response: "wire (res fresh_state) = None"
    and no_message: "acceptable (statusMessage (res fresh_state))"
    by (simp_all add: fresh_state_def fresh_response_def acceptable_def)
  have phrases: "status_text None 500 = ''Internal Server Error''"
    "status_text None 400 = ''Bad Request''"
    by (simp_all add: status_text_def reason_phrase_def STATUS_CODES_def)
  have not_fresh: "\<not> req_fresh post_request (JNumber 500)"
    by (simp add: req_fresh_def post_request_def)
  show ?thesis
    using h1 h2 phrases not_fresh
      errorHandler_other_status [OF h1 open_response no_message,
        of 500 post_request "\<lparr>NODE_ENV = None, JWT_SECRET = None\<rparr>" "()"]
      errorHandler_other_status [OF h2 open_response no_message,
        of 0 post_request "\<lparr>NODE_ENV = None, JWT_SECRET = None\<rparr>" "()"]
    by (simp add: fresh_state_def fresh_response_def)
qed

text \<open>
  C2 as it is written fails at a numeric status that is present and is \<^verbatim>\<open>0\<close>: the
  error is not a ClientError, its attached status is the number 0, and the response
  status is 400, not 0.
\<close>

theorem errorHandler_status_zero_counterexample:
  "\<not> instanceof_ClientError (OtherError ''boom'' (JNumber 0))
   \<and> status (OtherError ''boom'' (JNumber 0)) = JNumber 0
   \<and> statusCode (res (errorHandler \<lparr>NODE_ENV = None, JWT_SECRET = None\<rparr>
        (OtherError ''boom'' (JNumber 0)) post_request () fresh_state)) = JNumber 400
   \<and> statusCode (res (errorHandler \<lparr>NODE_ENV = None, JWT_SECRET = None\<rparr>
        (OtherError ''boom'' (JNumber 0)) post_request () fresh_state)) \<noteq> JNumber 0
   \<and> wire (res (errorHandler \<lparr>NODE_ENV = None, JWT_SECRET = None\<rparr>
        (OtherError ''boom'' (JNumber 0)) post_request () fresh_state)) =
      Some \<lparr>wire_status = 400, wire_reason = ''Bad Request'', wire_body = []\<rparr>"
  by (simp add: errorHandler_other js_or_def res_send_400 res_status_def status_text_def
      reason_phrase_400 valid_header_char_def fresh_state_def fresh_response_def)

text \<open>
  C9. For every error that is not a ClientError and whose status field is falsy
  (absent, \<^verbatim>\<open>null\<close>, \<^verbatim>\<open>false\<close>, the number \<^verbatim>\<open>0\<close> or \<^verbatim>\<open>NaN\<close>), the handler
  responds with 400: it sets the status code 400 and calls \<^verbatim>\<open>send()\<close> once, and
  what that call writes is a status line with 400 and an empty body. It writes one on
  every open response unless Node refuses a status message set on the response
  beforehand (a finished response stays as it was). The default covers every falsy
  value, not only a status that is absent.
\<close>

theorem errorHandler_falsy_status_400:
  assumes "\<not> instanceof_ClientError err" and "\<not> truthy (status err)"
  shows "statusCode (res (errorHandler env err req next s)) = JNumber 400
       \<and> sent (res (errorHandler env err req next s)) = sent (res s) @ [None]
       \<and> wire (res (errorHandler env err req next s)) =
           (if wire (res s) \<noteq> None then wire (res s)
            else if list_all valid_header_char (status_text (statusMessage (res s)) 400)
            then Some \<lparr>wire_status = 400,
                       wire_reason = status_text (statusMessage (res s)) 400,
                       wire_body = []\<rparr>
            else None)"
proof (cases err)
  case (ClientError m i st)
  with assms(1) show ?thesis by simp
next
  case (OtherError m st)
  with assms(2) have "js_or st (JNumber 400) = JNumber 400"
    by (simp add: js_or_def)
  with OtherError show ?thesis
    by (simp add: errorHandler_other res_send_400 res_status_def)
qed

theorem errorHandler_falsy_status_400_witness:
  "\<not> instanceof_ClientError (OtherError ''boom'' (JNumber 0))
   \<and> \<not> truthy (status (OtherError ''boom'' (JNumber 0)))
   \<and> wire (res (errorHandler \<lparr>NODE_ENV = Some ''production'', JWT_SECRET = None\<rparr>
        (OtherError ''boom'' (JNumber 0)) post_request () fresh_state)) =
      Some \<lparr>wire_status = 400, wire_reason = ''Bad Request'', wire_body = []\<rparr>
   \<and> sent (res (errorHandler \<lparr>NODE_ENV = Some ''production'', JWT_SECRET = None\<rparr>
        (OtherError ''boom'' (JNumber 0)) post_request () fresh_state)) = [None]
   \<and> \<not> truthy (status (OtherError ''boom'' JNaN))
   \<and> wire (res (errorHandler \<lparr>NODE_ENV = Some ''production'', JWT_SECRET = None\<rparr>
        (OtherError ''boom'' JNaN) post_request () fresh_state)) =
      Some \<lparr>wire_status = 400, wire_reason = ''Bad Request'', wire_body = []\<rparr>
   \<and> \<not> truthy (status (OtherError ''boom'' (JBool False)))
   \<and> wire (res (errorHandler \<lparr>NODE_ENV = Some ''production'', JWT_SECRET = None\<rparr>
        (OtherError ''boom'' (JBool False)) post_request () fresh_state)) =
      Some \<lparr>wire_status = 400, wire_reason = ''Bad Request'', wire_body = []\<rparr>"
proof -
  have h: "\<not> instanceof_ClientError (OtherError ''boom'' st)" for st
    by simp
  have f0: "\<not> truthy (status (OtherError ''boom'' (JNumber 0)))"
    and f1: "\<not> truthy (status (OtherError ''boom'' JNaN))"
    and f2: "\<not> truthy (status (OtherError ''boom'' (JBool False)))"
    by simp_all
  have phrase: "status_text None 400 = ''Bad Request''"
    by (simp add: status_text_def reason_phrase_400)
  show ?thesis
    using h f0 f1 f2 phrase
      errorHandler_falsy_status_400 [OF h f0,
        of "\<lparr>NODE_ENV = Some ''production'', JWT_SECRET = None\<rparr>" post_request "()"
          fresh_state]
      errorHandler_falsy_status_400 [OF h f1,
        of "\<lparr>NODE_ENV = Some ''production'', JWT_SECRET = None\<rparr>" post_request "()"
          fresh_state]
      errorHandler_falsy_status_400 [OF h f2,
        of "\<lparr>NODE_ENV = Some ''production'', JWT_SECRET = None\<rparr>" post_request "()"
          fresh_state]
    by (simp add: fresh_state_def fresh_response_def valid_header_char_def)
qed

subsection \<open>Every path\<close>

text \<open>
  C6. On every path (a ClientError or not, a status attached or not) the handler
  calls the send operation of the response exactly once: the calls recorded on the
  response afterwards are those recorded before and one more, a \<^verbatim>\<open>send()\<close> without
  a body. The handler is a total function without a loop, so it always ends, by
  returning or with the exception that this one call raises.
\<close>

theorem errorHandler_sends_once:
  "sent (res (errorHandler env err req next s)) = sent (res s) @ [None]
   \<and> length (sent (res (errorHandler env err req next s))) = Suc (length (sent (res s)))
   \<and> sent (res (errorHandler env err req next fresh_state)) = [None]"
proof (cases err)
  case (ClientError m i st)
  then show ?thesis
    by (simp add: errorHandler_client sent_res_send res_status_def set_statusMessage_def
        Log_err_def fresh_state_def fresh_response_def)
next
  case (OtherError m st)
  then show ?thesis
    by (simp add: errorHandler_other sent_res_send res_status_def fresh_state_def
        fresh_response_def)
qed

theorem errorHandler_sends_once_witness:
  "length (sent (res (errorHandler \<lparr>NODE_ENV = Some ''test'', JWT_SECRET = None\<rparr>
      (ClientError ''Invalid form'' ''detail'' (JNumber 500)) post_request () fresh_state))) = 1
   \<and> length (sent (res (errorHandler \<lparr>NODE_ENV = Some ''test'', JWT_SECRET = None\<rparr>
      (OtherError ''boom'' JUndefined) post_request () fresh_state))) = 1
   \<and> length (sent (res (errorHandler \<lparr>NODE_ENV = Some ''test'', JWT_SECRET = None\<rparr>
      (OtherError ''boom'' (JNumber 1000)) post_request () fresh_state))) = 1"
  using
    errorHandler_sends_once [of "\<lparr>NODE_ENV = Some ''test'', JWT_SECRET = None\<rparr>"
      "ClientError ''Invalid form'' ''detail'' (JNumber 500)" post_request "()" fresh_state]
    errorHandler_sends_once [of "\<lparr>NODE_ENV = Some ''test'', JWT_SECRET = None\<rparr>"
      "OtherError ''boom'' JUndefined" post_request "()" fresh_state]
    errorHandler_sends_once [of "\<lparr>NODE_ENV = Some ''test'', JWT_SECRET = None\<rparr>"
      "OtherError ''boom'' (JNumber 1000)" post_request "()" fresh_state]
  by (simp add: fresh_state_def fresh_response_def)

text \<open>
  C10, as the code has it. The response is a function of the error and of the state of
  the response the handler is given; the environment, the \<^verbatim>\<open>next\<close> callback and the
  log have no part in it, and the request has one only through Express's freshness
  test, which never applies to a ClientError (its status is 400). Two invocations with
  the same error that start from responses in the same state, on requests for which
  that test answers alike, end with responses in the same state: equal status, status
  message and body. They also end alike, both returning or both with the same
  exception, when they start alike.
\<close>

theorem errorHandler_response_deterministic:
  assumes "res s1 = res s2"
    and "instanceof_ClientError err
         \<or> req_fresh req1 (js_or (status err) (JNumber 400)) =
             req_fresh req2 (js_or (status err) (JNumber 400))"
  shows "res (errorHandler env err req1 next1 s1) = res (errorHandler env' err req2 next2 s2)
       \<and> (thrown s1 = thrown s2 \<longrightarrow>
            thrown (errorHandler env err req1 next1 s1) =
              thrown (errorHandler env' err req2 next2 s2))"
proof (cases err)
  case (ClientError m i st)
  have not_fresh: "req_fresh req1 (JNumber 400) = req_fresh req2 (JNumber 400)"
    by (simp add: req_fresh_def)
  have "res (errorHandler env err req1 next1 s1) = res (errorHandler env' err req2 next2 s2)"
    unfolding ClientError errorHandler_client
    using assms(1) not_fresh
    by (intro res_send_same_response)
       (simp_all add: res_status_def set_statusMessage_def Log_err_def)
  moreover have "thrown (errorHandler env err req1 next1 s1) =
      thrown (errorHandler env' err req2 next2 s2)" if "thrown s1 = thrown s2"
    unfolding ClientError errorHandler_client
    using assms(1) not_fresh that
    by (intro thrown_res_send_same)
       (simp_all add: res_status_def set_statusMessage_def Log_err_def)
  ultimately show ?thesis by simp
next
  case (OtherError m st)
  with assms(2) have alike: "req_fresh req1 (js_or st (JNumber 400)) =
      req_fresh req2 (js_or st (JNumber 400))"
    by simp
  have "res (errorHandler env err req1 next1 s1) = res (errorHandler env' err req2 next2 s2)"
    unfolding OtherError errorHandler_other
    using assms(1) alike
    by (intro res_send_same_response) (simp_all add: res_status_def)
  moreover have "thrown (errorHandler env err req1 next1 s1) =
      thrown (errorHandler env' err req2 next2 s2)" if "thrown s1 = thrown s2"
    unfolding OtherError errorHandler_other
    using assms(1) alike that
    by (intro thrown_res_send_same) (simp_all add: res_status_def)
  ultimately show ?thesis by simp
qed

theorem errorHandler_response_deterministic_witness:
  "res (errorHandler \<lparr>NODE_ENV = Some ''test'', JWT_SECRET = None\<rparr>
      (OtherError ''boom'' (JNumber 503)) post_request () fresh_state) =
   res (errorHandler \<lparr>NODE_ENV = Some ''test'', JWT_SECRET = None\<rparr>
      (OtherError ''boom'' (JNumber 503)) \<lparr>req_method = ''GET'', conditional_fresh = True\<rparr> ()
      \<lparr>res = fresh_response, err_log = [''earlier line''], thrown = None\<rparr>)
   \<and> res (errorHandler \<lparr>NODE_ENV = Some ''test'', JWT_SECRET = None\<rparr>
      (ClientError ''Invalid form'' ''detail'' JUndefined) post_request () fresh_state) =
   res (errorHandler \<lparr>NODE_ENV = Some ''production'', JWT_SECRET = None\<rparr>
      (ClientError ''Invalid form'' ''detail'' JUndefined)
      \<lparr>req_method = ''GET'', conditional_fresh = True\<rparr> ()
      \<lparr>res = fresh_response, err_log = [''earlier line''], thrown = None\<rparr>)"
proof -
  have same: "res fresh_state =
      res \<lparr>res = fresh_response, err_log = [''earlier line''], thrown = None\<rparr>"
    by (simp add: fresh_state_def)
  have alike: "instanceof_ClientError (OtherError ''boom'' (JNumber 503))
      \<or> req_fresh post_request (js_or (status (OtherError ''boom'' (JNumber 503))) (JNumber 400)) =
        req_fresh \<lparr>req_method = ''GET'', conditional_fresh = True\<rparr>
          (js_or (status (OtherError ''boom'' (JNumber 503))) (JNumber 400))"
    by (simp add: req_fresh_def js_or_def post_request_def)
  have client: "instanceof_ClientError (ClientError ''Invalid form'' ''detail'' JUndefined)
      \<or> req_fresh post_request
          (js_or (status (ClientError ''Invalid form'' ''detail'' JUndefined)) (JNumber 400)) =
        req_fresh \<lparr>req_method = ''GET'', conditional_fresh = True\<rparr>
          (js_or (status (ClientError ''Invalid form'' ''detail'' JUndefined)) (JNumber 400))"
    by simp
  show ?thesis
    using
      errorHandler_response_deterministic [OF same alike,
        of "\<lparr>NODE_ENV = Some ''test'', JWT_SECRET = None\<rparr>" "()"
           "\<lparr>NODE_ENV = Some ''test'', JWT_SECRET = None\<rparr>" "()"]
      errorHandler_response_deterministic [OF same client,
        of "\<lparr>NODE_ENV = Some ''test'', JWT_SECRET = None\<rparr>" "()"
           "\<lparr>NODE_ENV = Some ''production'', JWT_SECRET = None\<rparr>" "()"]
    by simp
qed

text \<open>
  C10 as it is written fails for an error that is not a ClientError: that branch does
  not assign the status message, so two invocations with the same error, the same
  environment and even the same request end with different status messages when the
  responses they are handed carry different ones.
\<close>

theorem errorHandler_status_message_counterexample:
  "wire (res (errorHandler \<lparr>NODE_ENV = Some ''test'', JWT_SECRET = None\<rparr>
      (OtherError ''boom'' (JNumber 503)) post_request ()
      \<lparr>res = fresh_response, err_log = [], thrown = None\<rparr>)) =
     Some \<lparr>wire_status = 503, wire_reason = ''Service Unavailable'', wire_body = []\<rparr>
   \<and> wire (res (errorHandler \<lparr>NODE_ENV = Some ''test'', JWT_SECRET = None\<rparr>
      (OtherError ''boom'' (JNumber 503)) post_request ()
      \<lparr>res = fresh_response\<lparr>statusMessage := Some ''Try later''\<rparr>, err_log = [],
        thrown = None\<rparr>)) =
     Some \<lparr>wire_status = 503, wire_reason = ''Try later'', wire_body = []\<rparr>
   \<and> statusMessage (res (errorHandler \<lparr>NODE_ENV = Some ''test'', JWT_SECRET = None\<rparr>
      (OtherError ''boom'' (JNumber 503)) post_request ()
      \<lparr>res = fresh_response, err_log = [], thrown = None\<rparr>)) \<noteq>
     statusMessage (res (errorHandler \<lparr>NODE_ENV = Some ''test'', JWT_SECRET = None\<rparr>
      (OtherError ''boom'' (JNumber 503)) post_request ()
      \<lparr>res = fresh_response\<lparr>statusMessage := Some ''Try later''\<rparr>, err_log = [],
        thrown = None\<rparr>))"
  by (simp add: errorHandler_other js_or_def res_send_def Let_def res_status_def res_end_def
      writeHead_def req_fresh_def post_request_def status_text_def status_line_text_def
      reason_phrase_def STATUS_CODES_def valid_header_char_def fresh_response_def)

section \<open>Properties of the auth handler as specified\<close>

text \<open>
  C3. The status contract of login, on the handler as the specification describes it.
  For every request: if the username or the password is missing, the status is 400; if
  the username is known (the store holds a user \<open>u\<close> of that name) and the password
  is wrong, the status is 401; if the credentials are correct and the signing secret
  is configured, the status is 200 and the body carries a token, issued for that user;
  if the signing secret is unconfigured at sign time, that is when correct credentials
  have brought the request to the signing, the status is 500.
\<close>

theorem login_status_contract:
  "(missing (login_username body) \<or> missing (login_password body) \<longrightarrow>
      http_status (login_endpoint c env store body) = 400)
   \<and> (login_username body = Some n \<and> login_password body = Some p \<and> n \<noteq> [] \<and> p \<noteq> []
        \<and> find (\<lambda>u. username u = n) store = Some u \<and> hash c p \<noteq> password_hash u \<longrightarrow>
      http_status (login_endpoint c env store body) = 401)
   \<and> (login_username body = Some n \<and> login_password body = Some p \<and> n \<noteq> [] \<and> p \<noteq> []
        \<and> find (\<lambda>u. username u = n) store = Some u \<and> hash c p = password_hash u
        \<and> JWT_SECRET env = Some k \<longrightarrow>
      http_status (login_endpoint c env store body) = 200
      \<and> (\<exists>t. jwt (login_endpoint c env store body) = Some t \<and> subject t = user_id u))
   \<and> (login_username body = Some n \<and> login_password body = Some p \<and> n \<noteq> [] \<and> p \<noteq> []
        \<and> find (\<lambda>u. username u = n) store = Some u \<and> hash c p = password_hash u
        \<and> JWT_SECRET env = None \<longrightarrow>
      http_status (login_endpoint c env store body) = 500)"
proof -
  have validation: "http_status (login_endpoint c env store body) = 400"
    if "missing (login_username body) \<or> missing (login_password body)"
    using that
    by (auto simp: login_endpoint_def login_def missing_def split: option.splits)
  have past_validation:
    "login c env store body =
       (if hash c p = password_hash u then jwt_sign c (JWT_SECRET env) (user_id u)
        else Inl AuthenticationError)"
    if "login_username body = Some n" "login_password body = Some p" "n \<noteq> []" "p \<noteq> []"
      "find (\<lambda>u. username u = n) store = Some u"
    using that by (simp add: login_def)
  show ?thesis
    using validation past_validation
    by (auto simp: login_endpoint_def jwt_sign_def)
qed

theorem login_status_contract_witness:
  "http_status (login_endpoint test_collaborators
      \<lparr>NODE_ENV = Some ''test'', JWT_SECRET = Some ''s3cret''\<rparr> [mockUser]
      \<lparr>login_username = None, login_password = None\<rparr>) = 400
   \<and> http_status (login_endpoint test_collaborators
      \<lparr>NODE_ENV = Some ''test'', JWT_SECRET = Some ''s3cret''\<rparr> [mockUser]
      \<lparr>login_username = Some ''__test__'', login_password = Some ''wrongpassword''\<rparr>) = 401
   \<and> http_status (login_endpoint test_collaborators
      \<lparr>NODE_ENV = Some ''test'', JWT_SECRET = Some ''s3cret''\<rparr> [mockUser]
      \<lparr>login_username = Some ''__test__'', login_password = Some ''1''\<rparr>) = 200
   \<and> jwt (login_endpoint test_collaborators
      \<lparr>NODE_ENV = Some ''test'', JWT_SECRET = Some ''s3cret''\<rparr> [mockUser]
      \<lparr>login_username = Some ''__test__'', login_password = Some ''1''\<rparr>) =
      Some \<lparr>subject = 1, expiry = 120, signature = ''sig:s3cret''\<rparr>
   \<and> http_status (login_endpoint test_collaborators
      \<lparr>NODE_ENV = None, JWT_SECRET = None\<rparr> [mockUser]
      \<lparr>login_username = Some ''__test__'', login_password = Some ''1''\<rparr>) = 500"
proof -
  have found: "find (\<lambda>u. username u = ''__test__'') [mockUser] = Some mockUser"
    by (simp add: mockUser_def)
  have wrong: "hash test_collaborators ''wrongpassword'' \<noteq> password_hash mockUser"
    and right: "hash test_collaborators ''1'' = password_hash mockUser"
    by (simp_all add: test_collaborators_def mockUser_def)
  have token: "jwt (login_endpoint test_collaborators
      \<lparr>NODE_ENV = Some ''test'', JWT_SECRET = Some ''s3cret''\<rparr> [mockUser]
      \<lparr>login_username = Some ''__test__'', login_password = Some ''1''\<rparr>) =
      Some \<lparr>subject = 1, expiry = 120, signature = ''sig:s3cret''\<rparr>"
    by (simp add: login_endpoint_def login_def jwt_sign_def test_collaborators_def mockUser_def)
  show ?thesis
    using found wrong right token
      login_status_contract [of "\<lparr>login_username = None, login_password = None\<rparr>"
        test_collaborators "\<lparr>NODE_ENV = Some ''test'', JWT_SECRET = Some ''s3cret''\<rparr>"
        "[mockUser]" "''__test__''" "''1''" mockUser "''s3cret''"]
      login_status_contract
        [of "\<lparr>login_username = Some ''__test__'', login_password = Some ''wrongpassword''\<rparr>"
        test_collaborators "\<lparr>NODE_ENV = Some ''test'', JWT_SECRET = Some ''s3cret''\<rparr>"
        "[mockUser]" "''__test__''" "''wrongpassword''" mockUser "''s3cret''"]
      login_status_contract
        [of "\<lparr>login_username = Some ''__test__'', login_password = Some ''1''\<rparr>"
        test_collaborators "\<lparr>NODE_ENV = Some ''test'', JWT_SECRET = Some ''s3cret''\<rparr>"
        "[mockUser]" "''__test__''" "''1''" mockUser "''s3cret''"]
      login_status_contract
        [of "\<lparr>login_username = Some ''__test__'', login_password = Some ''1''\<rparr>"
        test_collaborators "\<lparr>NODE_ENV = None, JWT_SECRET = None\<rparr>"
        "[mockUser]" "''__test__''" "''1''" mockUser "''s3cret''"]
    by (simp add: missing_def)
qed

text \<open>
  C5. On the registration handler as the specification describes it: registering
  with a username and email that a user of the store already has returns status 400
  and the store as it was, so no second record of that user exists afterwards.
\<close>

theorem register_existing_user_rejected:
  assumes "\<exists>u \<in> set store. username u = form_username form \<and> email u = form_email form"
  shows "register_status (fst (register c store form)) = 400
       \<and> snd (register c store form) = store"
proof -
  from assms have dup:
    "\<exists>u \<in> set store. username u = form_username form \<or> email u = form_email form"
    by blast
  show ?thesis
  proof (cases "form_password form = form_confirmPassword form")
    case True
    with dup show ?thesis by (simp add: register_def register_status_def)
  next
    case False
    then show ?thesis by (simp add: register_def register_status_def)
  qed
qed

theorem register_existing_user_rejected_witness:
  "(\<exists>u \<in> set [mockUser]. username u = ''__test__'' \<and> email u = ''__test__@__test__.com'')
   \<and> register_status (fst (register test_collaborators [mockUser]
        \<lparr>form_username = ''__test__'', form_email = ''__test__@__test__.com'',
         form_password = ''1'', form_confirmPassword = ''1''\<rparr>)) = 400
   \<and> snd (register test_collaborators [mockUser]
        \<lparr>form_username = ''__test__'', form_email = ''__test__@__test__.com'',
         form_password = ''1'', form_confirmPassword = ''1''\<rparr>) = [mockUser]"
proof -
  have h: "\<exists>u \<in> set [mockUser].
      username u = form_username \<lparr>form_username = ''__test__'',
         form_email = ''__test__@__test__.com'', form_password = ''1'',
         form_confirmPassword = ''1''\<rparr>
      \<and> email u = form_email \<lparr>form_username = ''__test__'',
         form_email = ''__test__@__test__.com'', form_password = ''1'',
         form_confirmPassword = ''1''\<rparr>"
    by (simp add: mockUser_def)
  show ?thesis
    using h register_existing_user_rejected [OF h, of test_collaborators]
    by simp
qed

end
